theory Spec2Isabelle
  imports Complex_Main
begin

section \<open>Host-language primitives\<close>

text \<open>
  The service is a Node.js program.  The numbers of the banner configuration and of the
  pixel geometry are modelled as exact reals (the rounding error of IEEE doubles is not
  represented), and pixel values produced by \<^verbatim>\<open>Math.round\<close> as integers.
  \<^verbatim>\<open>Math.round\<close> rounds to the nearest integer with ties going towards plus
  infinity.
\<close>

definition Math_round :: "real \<Rightarrow> int" where
  "Math_round v = \<lfloor>v + 1 / 2\<rfloor>"

text \<open>
  A duration comes from the request body, where JSON text such as \<^verbatim>\<open>1e400\<close> parses
  to \<^verbatim>\<open>Infinity\<close>, and the scroll speed is a quotient by it, which can overflow,
  underflow or divide by zero.  These are numbers with the range of a double: \<open>Num x\<close>
  is a finite double of value \<open>x\<close>, beside the two infinities and not-a-number.  The
  sign of zero is not represented.
\<close>

datatype jsnum = Num real | PInf | NInf | NaN

text \<open>
  The range of doubles under rounding to nearest: a real of magnitude at least
  \<open>2^1024 - 2^970\<close>, half way between the largest double and \<open>2^1024\<close>, rounds to an
  infinity; one of magnitude at most \<open>2^-1075\<close>, half the smallest positive double,
  rounds to zero.  Between the two the rounding of the significand to 53 bits is not
  represented: the result has the sign of the exact value and is finite.
\<close>

definition DBL_OVERFLOW :: real where
  "DBL_OVERFLOW = 2 ^ 1024 - 2 ^ 970"

definition DBL_UNDERFLOW :: real where
  "DBL_UNDERFLOW = 1 / 2 ^ 1075"

definition to_double :: "real \<Rightarrow> jsnum" where
  "to_double q =
     (if DBL_OVERFLOW \<le> \<bar>q\<bar> then (if 0 < q then PInf else NInf)
      else if \<bar>q\<bar> \<le> DBL_UNDERFLOW then Num 0
      else Num q)"

text \<open>The operator \<^verbatim>\<open>/\<close>.\<close>

fun js_div :: "jsnum \<Rightarrow> jsnum \<Rightarrow> jsnum" where
  "js_div (Num x) (Num y) =
     (if y = 0 then (if x = 0 then NaN else if 0 < x then PInf else NInf)
      else to_double (x / y))"
| "js_div (Num x) PInf = Num 0"
| "js_div (Num x) NInf = Num 0"
| "js_div PInf (Num y) = (if 0 \<le> y then PInf else NInf)"
| "js_div NInf (Num y) = (if 0 \<le> y then NInf else PInf)"
| "js_div a b = NaN"

text \<open>Truthiness of a number: zero and not-a-number are falsy.\<close>

definition truthy_num :: "jsnum \<Rightarrow> bool" where
  "truthy_num n = (case n of Num x \<Rightarrow> x \<noteq> 0 | NaN \<Rightarrow> False | _ \<Rightarrow> True)"



text \<open>
  \<^verbatim>\<open>s.replace(pat, rep)\<close> with a string pattern replaces the first occurrence
  of the pattern only, wherever it stands in the string.
\<close>

fun str_replace :: "string \<Rightarrow> string \<Rightarrow> string \<Rightarrow> string" where
  "str_replace pat rep [] = (if pat = [] then rep else [])"
| "str_replace pat rep (c # cs) =
     (if take (length pat) (c # cs) = pat then rep @ drop (length pat) (c # cs)
      else c # str_replace pat rep cs)"

text \<open>
  \<^verbatim>\<open>s.toUpperCase()\<close>, on the ASCII letters; every other byte is left as it is.
\<close>

definition upper_char :: "char \<Rightarrow> char" where
  "upper_char c =
     (case map_of (zip ''abcdefghijklmnopqrstuvwxyz'' ''ABCDEFGHIJKLMNOPQRSTUVWXYZ'') c of
        Some u \<Rightarrow> u
      | None \<Rightarrow> c)"

definition toUpperCase :: "string \<Rightarrow> string" where
  "toUpperCase s = map upper_char s"

section \<open>Banner configuration\<close>

text \<open>
  \<^verbatim>\<open>banner_config\<close> is a JSON object of the request body.  A key that is absent
  reads as \<^verbatim>\<open>undefined\<close>, here \<open>None\<close>.  The key \<^verbatim>\<open>y\<close> is the field \<open>y_px\<close>.
\<close>

record banner_config =
  y_percent :: "real option"
  y_px :: "real option"
  font_size_percent :: "real option"
  font_size :: "real option"
  template_height :: "real option"
  show_background :: "bool option"
  text_color :: "string option"
  fill_color :: "string option"
  bg_color :: "string option"

definition empty_config :: banner_config where
  "empty_config =
     \<lparr> y_percent = None, y_px = None, font_size_percent = None, font_size = None,
       template_height = None, show_background = None, text_color = None,
       fill_color = None, bg_color = None \<rparr>"

definition DEFAULT_BANNER_CONFIG :: banner_config where
  "DEFAULT_BANNER_CONFIG =
     \<lparr> y_percent = Some 0.159, y_px = None, font_size_percent = Some 0.04,
       font_size = None, template_height = None, show_background = Some False,
       text_color = Some ''#feb628'', fill_color = None, bg_color = Some ''#1a325b'' \<rparr>"

text \<open>One key of an object spread: the later object wins where it has the key.\<close>

definition spread :: "'a option \<Rightarrow> 'a option \<Rightarrow> 'a option" where
  "spread d b = (case b of None \<Rightarrow> d | Some v \<Rightarrow> Some v)"

text \<open>\<^verbatim>\<open>{ ...DEFAULT_BANNER_CONFIG, ...bannerConfig }\<close>\<close>

definition mergeConfig :: "banner_config \<Rightarrow> banner_config" where
  "mergeConfig bannerConfig =
     \<lparr> y_percent = spread (y_percent DEFAULT_BANNER_CONFIG) (y_percent bannerConfig),
       y_px = spread (y_px DEFAULT_BANNER_CONFIG) (y_px bannerConfig),
       font_size_percent =
         spread (font_size_percent DEFAULT_BANNER_CONFIG) (font_size_percent bannerConfig),
       font_size = spread (font_size DEFAULT_BANNER_CONFIG) (font_size bannerConfig),
       template_height =
         spread (template_height DEFAULT_BANNER_CONFIG) (template_height bannerConfig),
       show_background =
         spread (show_background DEFAULT_BANNER_CONFIG) (show_background bannerConfig),
       text_color = spread (text_color DEFAULT_BANNER_CONFIG) (text_color bannerConfig),
       fill_color = spread (fill_color DEFAULT_BANNER_CONFIG) (fill_color bannerConfig),
       bg_color = spread (bg_color DEFAULT_BANNER_CONFIG) (bg_color bannerConfig) \<rparr>"

section \<open>Banner geometry\<close>

definition inferTemplateHeight :: "int \<Rightarrow> int \<Rightarrow> real" where
  "inferTemplateHeight width height =
     (let aspectRatio = real_of_int width / real_of_int height in
      if aspectRatio < 0.7 then 1280
      else if aspectRatio < 0.9 then 1350
      else if aspectRatio < 1.1 then 1080
      else 720)"

text \<open>
  \<^verbatim>\<open>config.template_height || inferTemplateHeight(width, height)\<close>: a template
  height of zero is falsy and gives way to the inferred one, as an absent one does.
\<close>

definition templateHeightOf :: "banner_config \<Rightarrow> int \<Rightarrow> int \<Rightarrow> real" where
  "templateHeightOf config width height =
     (case template_height config of
        Some th \<Rightarrow> if th \<noteq> 0 then th else inferTemplateHeight width height
      | None \<Rightarrow> inferTemplateHeight width height)"

text \<open>The font-size block of \<^verbatim>\<open>addScrollingBanner\<close>, on the merged configuration.\<close>

definition calcFontSize :: "banner_config \<Rightarrow> int \<Rightarrow> int \<Rightarrow> int" where
  "calcFontSize config width height =
     (case font_size_percent config of
        Some p \<Rightarrow> Math_round (real_of_int (min width height) * p)
      | None \<Rightarrow>
          (case font_size config of
             Some fs \<Rightarrow>
               (let templateHeight = templateHeightOf config width height;
                    fontSizePercent =
                      fs / min templateHeight
                             (templateHeight * (real_of_int width / real_of_int height))
                in Math_round (real_of_int (min width height) * fontSizePercent))
           | None \<Rightarrow>
               (case font_size_percent DEFAULT_BANNER_CONFIG of
                  Some d \<Rightarrow> Math_round (real_of_int (min width height) * d)
                | None \<Rightarrow> 0)))"

text \<open>The vertical-position block, on the merged configuration.\<close>

definition calcYPercent :: "banner_config \<Rightarrow> int \<Rightarrow> int \<Rightarrow> real" where
  "calcYPercent config width height =
     (case y_percent config of
        Some p \<Rightarrow> p
      | None \<Rightarrow>
          (case y_px config of
             Some y \<Rightarrow> y / templateHeightOf config width height
           | None \<Rightarrow> (case y_percent DEFAULT_BANNER_CONFIG of Some d \<Rightarrow> d | None \<Rightarrow> 0)))"

text \<open>
  Failures of the program.  \<open>HttpError\<close> is the error of the HTTP client and carries
  \<^verbatim>\<open>error.response?.status\<close>; \<open>TypeError\<close> is the engine's error on reading a
  property of \<^verbatim>\<open>undefined\<close>; \<open>ENOENT\<close> is \<^verbatim>\<open>unlinkSync\<close> on a missing file.
\<close>

datatype error =
    HttpError "nat option"
  | WriterError
  | FfprobeError
  | TypeError
  | FfmpegError
  | UploadError
  | ENOENT string

text \<open>
  The options handed to the \<^verbatim>\<open>drawtext\<close> filter.  The horizontal position is the
  expression \<^verbatim>\<open>w-mod(t*scrollSpeed\,w+tw+100)\<close>, of which only the speed varies;
  \<open>box\<close> holds \<^verbatim>\<open>boxcolor\<close> and \<^verbatim>\<open>boxborderw\<close> when the box is drawn.
\<close>

record drawtext_options =
  dt_text :: string
  fontsize :: int
  fontcolor :: string
  x_speed :: jsnum
  dt_y :: int
  box :: "(string \<times> int) option"

definition bannerText :: "string \<Rightarrow> string \<Rightarrow> string" where
  "bannerText avatarName platform =
     ''Ask for '' @ avatarName @ '' and mention you saw this on '' @ platform @ ''!''"

text \<open>\<^verbatim>\<open>a || b\<close> on strings that may be absent: the empty string is falsy.\<close>

definition or_str :: "string option \<Rightarrow> string option \<Rightarrow> string option" where
  "or_str a b = (case a of Some s \<Rightarrow> if s \<noteq> [] then Some s else b | None \<Rightarrow> b)"

text \<open>Calling \<^verbatim>\<open>.replace('0x', '#')\<close> on a value that may be \<^verbatim>\<open>undefined\<close>.\<close>

definition normalizeColor :: "string option \<Rightarrow> error + string" where
  "normalizeColor c =
     (case c of Some s \<Rightarrow> Inr (str_replace ''0x'' ''#'' s) | None \<Rightarrow> Inl TypeError)"

definition calcTextColor :: "banner_config \<Rightarrow> error + string" where
  "calcTextColor config =
     normalizeColor
       (or_str (or_str (text_color config) (fill_color config))
          (text_color DEFAULT_BANNER_CONFIG))"

definition calcBannerY :: "banner_config \<Rightarrow> int \<Rightarrow> int \<Rightarrow> int" where
  "calcBannerY config width height =
     Math_round (real_of_int height * calcYPercent config width height
                 + real_of_int (calcFontSize config width height) * 0.3)"

text \<open>
  The scroll speed: the text crosses the frame \<open>traversals\<close> times in the clip's
  duration, its width estimated from the font size and the number of characters.
\<close>

definition totalScrollDistance :: "real \<Rightarrow> int \<Rightarrow> string \<Rightarrow> int \<Rightarrow> real" where
  "totalScrollDistance traversals fontSize txt width =
     (let estimatedTextWidth = real_of_int fontSize * real (length txt) * 0.6
      in (estimatedTextWidth + real_of_int width) * traversals)"

definition scrollSpeed :: "real \<Rightarrow> int \<Rightarrow> string \<Rightarrow> int \<Rightarrow> jsnum \<Rightarrow> jsnum" where
  "scrollSpeed traversals fontSize txt width duration =
     js_div (Num (totalScrollDistance traversals fontSize txt width)) duration"


text \<open>
  The parameters that \<^verbatim>\<open>addScrollingBanner\<close> computes from the request, the probed
  dimensions and the duration (latest version of the service).
\<close>

definition drawtextOptions ::
  "banner_config \<Rightarrow> string \<Rightarrow> string \<Rightarrow> jsnum \<Rightarrow> int \<Rightarrow> int \<Rightarrow> error + drawtext_options" where
  "drawtextOptions bannerConfig avatarName platform duration width height =
     (let txt = bannerText avatarName platform;
          config = mergeConfig bannerConfig;
          fontSize = calcFontSize config width height;
          bannerY = calcBannerY config width height
      in case calcTextColor config of
           Inl e \<Rightarrow> Inl e
         | Inr textColor \<Rightarrow>
             (case normalizeColor (bg_color config) of
                Inl e \<Rightarrow> Inl e
              | Inr bgColor \<Rightarrow>
                  Inr \<lparr> dt_text = txt, fontsize = fontSize, fontcolor = textColor,
                        x_speed = scrollSpeed 2 fontSize txt width duration,
                        dt_y = bannerY,
                        box = (if show_background config = Some True
                               then Some (bgColor, Math_round (real_of_int fontSize * 0.3))
                               else None) \<rparr>))"

subsection \<open>The two earlier versions\<close>

text \<open>
  The version before the dual-unit configuration reads \<^verbatim>\<open>font_size_percent\<close> and
  \<^verbatim>\<open>y_percent\<close> of the merged configuration directly; \<open>None\<close> stands for the
  not-a-number of arithmetic on an absent key.  It scrolls three times.
\<close>

definition fontSize_v2 :: "banner_config \<Rightarrow> int \<Rightarrow> int \<Rightarrow> int option" where
  "fontSize_v2 bannerConfig width height =
     map_option (\<lambda>p. Math_round (real_of_int (min width height) * p))
       (font_size_percent (mergeConfig bannerConfig))"

definition bannerY_v2 :: "banner_config \<Rightarrow> int \<Rightarrow> int option" where
  "bannerY_v2 bannerConfig height =
     map_option (\<lambda>p. Math_round (real_of_int height * p))
       (y_percent (mergeConfig bannerConfig))"


definition bannerY_v1 :: "int \<Rightarrow> int" where
  "bannerY_v1 height = Math_round (real_of_int height * 0.159)"


text \<open>
  The duration handed to \<^verbatim>\<open>addScrollingBanner\<close> by both handlers:
  \<^verbatim>\<open>duration || info.duration\<close>.  A request duration that is absent or zero is
  falsy and gives way to the probed one; any other number is passed on as it is.
\<close>

definition videoDuration :: "jsnum option \<Rightarrow> real \<Rightarrow> jsnum" where
  "videoDuration duration info_duration =
     (case duration of
        Some d \<Rightarrow> if truthy_num d then d else Num info_duration
      | None \<Rightarrow> Num info_duration)"

section \<open>The outside world\<close>

text \<open>
  The HTTP client, the prober, the renderer and the artifact store are external.  Their
  answers are the fields of an environment; the file system and the order of the calls
  are the state \<open>world\<close>, threaded through every operation.
\<close>

type_synonym path = string

text \<open>
  One HTTP request: the body arrives and is written; the request fails before a
  response is handed over, with the status of the response when there is one; the write
  stream fails; or the response arrives and its body stream fails before the end, so that
  the write stream neither finishes nor fails.  The flags tell whether the destination
  file was created.
\<close>

datatype attempt_outcome =
    Fetched
  | RequestFailed "nat option"
  | WriterFailed bool
  | BodyFailed bool

record stream =
  codec_type :: string
  s_width :: int
  s_height :: int

record metadata =
  streams :: "stream list"
  format_duration :: real

text \<open>The renderer ends, or fails; the flag tells whether it left a partial output file.\<close>

datatype render_outcome = RenderEnd | RenderFailed bool

record env =
  http_get :: "string \<Rightarrow> nat \<Rightarrow> attempt_outcome"
  ffprobe :: "path \<Rightarrow> metadata option"
  ffmpeg_save :: "path \<Rightarrow> path \<Rightarrow> drawtext_options \<Rightarrow> render_outcome"
  cloudinary_upload :: "path \<Rightarrow> string option"

datatype event =
    Download string path
  | HttpGet string
  | Sleep nat
  | Probe path
  | Render path path
  | Upload path
  | Unlink path

record world =
  files :: "path set"
  log :: "event list"

definition emit :: "event \<Rightarrow> world \<Rightarrow> world" where
  "emit e w = w\<lparr>log := log w @ [e]\<rparr>"

definition create_file :: "path \<Rightarrow> world \<Rightarrow> world" where
  "create_file p w = w\<lparr>files := insert p (files w)\<rparr>"

text \<open>
  How an asynchronous operation ends: its promise is resolved, or rejected, or an
  exception escapes from a callback outside every promise, which no handler of the
  program catches, or the promise is never settled and whoever awaits it waits for ever.
\<close>

datatype 'a outcome = Resolved 'a | Rejected error | Uncaught error | Pending

text \<open>\<^verbatim>\<open>await\<close> inside \<^verbatim>\<open>try\<close>: go on with the value, or leave with the failure.\<close>

definition await ::
  "'a outcome \<times> world \<Rightarrow> ('a \<Rightarrow> world \<Rightarrow> 'b outcome \<times> world) \<Rightarrow> 'b outcome \<times> world" where
  "await m f =
     (case m of
        (Resolved v, w) \<Rightarrow> f v w
      | (Rejected e, w) \<Rightarrow> (Rejected e, w)
      | (Uncaught e, w) \<Rightarrow> (Uncaught e, w)
      | (Pending, w) \<Rightarrow> (Pending, w))"

subsection \<open>Paths\<close>

fun split_on :: "char \<Rightarrow> string \<Rightarrow> string list" where
  "split_on c [] = [[]]"
| "split_on c (x # xs) =
     (if x = c then [] # split_on c xs
      else (case split_on c xs of [] \<Rightarrow> [[x]] | s # ss \<Rightarrow> (x # s) # ss))"

text \<open>
  Normalisation of the segments of a POSIX path: empty segments and \<^verbatim>\<open>.\<close> are
  dropped, \<^verbatim>\<open>..\<close> removes the segment before it; the stack is kept reversed.
\<close>

fun normalizeSegments :: "bool \<Rightarrow> string list \<Rightarrow> string list \<Rightarrow> string list" where
  "normalizeSegments allowAboveRoot acc [] = rev acc"
| "normalizeSegments allowAboveRoot acc (s # ss) =
     (if s = [] \<or> s = ''.'' then normalizeSegments allowAboveRoot acc ss
      else if s = ''..'' then
        (case acc of
           [] \<Rightarrow> normalizeSegments allowAboveRoot (if allowAboveRoot then [''..''] else []) ss
         | t # ts \<Rightarrow>
             if t = ''..'' then normalizeSegments allowAboveRoot (''..'' # acc) ss
             else normalizeSegments allowAboveRoot ts ss)
      else normalizeSegments allowAboveRoot (s # acc) ss)"

fun join_segments :: "string list \<Rightarrow> string" where
  "join_segments [] = []"
| "join_segments [s] = s"
| "join_segments (s # t # ss) = s @ ''/'' @ join_segments (t # ss)"

definition path_normalize :: "path \<Rightarrow> path" where
  "path_normalize p =
     (if p = [] then ''.''
      else
        (let isAbsolute = (hd p = CHR ''/'');
             trailingSeparator = (last p = CHR ''/'');
             body = join_segments (normalizeSegments (\<not> isAbsolute) [] (split_on CHR ''/'' p))
         in if body = [] then
              (if isAbsolute then ''/'' else if trailingSeparator then ''./'' else ''.'')
            else
              (let body' = (if trailingSeparator then body @ ''/'' else body)
               in if isAbsolute then ''/'' @ body' else body')))"

text \<open>\<^verbatim>\<open>path.join(a, b)\<close> for two non-empty parts.\<close>

definition path_join :: "path \<Rightarrow> path \<Rightarrow> path" where
  "path_join a b = path_normalize (a @ ''/'' @ b)"

definition TEMP_DIR :: path where
  "TEMP_DIR = ''/tmp''"

definition inputPathOf :: "string \<Rightarrow> path" where
  "inputPathOf jobId = path_join TEMP_DIR (''input-'' @ jobId @ ''.mp4'')"

definition outputPathOf :: "string \<Rightarrow> string \<Rightarrow> path" where
  "outputPathOf jobId platform =
     path_join TEMP_DIR (''output-'' @ jobId @ ''-'' @ platform @ ''.mp4'')"

text \<open>\<^verbatim>\<open>fs.unlinkSync\<close> throws when the file is not there.\<close>

definition unlinkSync :: "path \<Rightarrow> world \<Rightarrow> unit outcome \<times> world" where
  "unlinkSync p w =
     (if p \<in> files w then (Resolved (), emit (Unlink p) (w\<lparr>files := files w - {p}\<rparr>))
      else (Rejected (ENOENT p), w))"

section \<open>Resilient fetcher\<close>

text \<open>
  The test of the \<^verbatim>\<open>catch\<close> block on \<^verbatim>\<open>error.response?.status\<close>:
  \<^verbatim>\<open>status === 404 || status >= 500\<close>; both comparisons are false on
  \<^verbatim>\<open>undefined\<close>.
\<close>

text \<open>
  The \<^verbatim>\<open>catch\<close> block surrounds the request only.  Once the response is there the
  function returns a promise that the write stream resolves on \<^verbatim>\<open>finish\<close> and
  rejects on \<^verbatim>\<open>error\<close>; nothing listens to the body stream, so when that fails the
  promise stays pending.
\<close>

definition retryable :: "nat option \<Rightarrow> bool" where
  "retryable status = (case status of Some s \<Rightarrow> s = 404 \<or> 500 \<le> s | None \<Rightarrow> False)"

function downloadVideo_loop ::
  "env \<Rightarrow> string \<Rightarrow> path \<Rightarrow> nat \<Rightarrow> nat \<Rightarrow> nat \<Rightarrow> world \<Rightarrow> unit outcome \<times> world" where
  "downloadVideo_loop env url outputPath maxRetries initialDelay attempt w =
     (if attempt \<le> maxRetries then
        (case http_get env url attempt of
           Fetched \<Rightarrow> (Resolved (), create_file outputPath (emit (HttpGet url) w))
         | WriterFailed created \<Rightarrow>
             (Rejected WriterError,
              if created then create_file outputPath (emit (HttpGet url) w)
              else emit (HttpGet url) w)
         | BodyFailed created \<Rightarrow>
             (Pending,
              if created then create_file outputPath (emit (HttpGet url) w)
              else emit (HttpGet url) w)
         | RequestFailed status \<Rightarrow>
             if retryable status \<and> attempt < maxRetries then
               downloadVideo_loop env url outputPath maxRetries initialDelay (attempt + 1)
                 (emit (Sleep (initialDelay * 2 ^ (attempt - 1))) (emit (HttpGet url) w))
             else (Rejected (HttpError status), emit (HttpGet url) w))
      else (Resolved (), w))"
  by pat_completeness auto
termination
  by (relation "measure (\<lambda>(env, url, outputPath, maxRetries, initialDelay, attempt, w).
                  maxRetries - attempt)") auto

definition downloadVideo ::
  "env \<Rightarrow> string \<Rightarrow> path \<Rightarrow> nat \<Rightarrow> nat \<Rightarrow> world \<Rightarrow> unit outcome \<times> world" where
  "downloadVideo env url outputPath maxRetries initialDelay w =
     downloadVideo_loop env url outputPath maxRetries initialDelay 1
       (emit (Download url outputPath) w)"


text \<open>
  The retry condition in the words of the specification: status 404 or a 5xx status.
\<close>

definition spec_retryable :: "nat option \<Rightarrow> bool" where
  "spec_retryable status =
     (case status of Some s \<Rightarrow> s = 404 \<or> (500 \<le> s \<and> s \<le> 599) | None \<Rightarrow> False)"

text \<open>A status code of HTTP lies between 100 and 599.\<close>

definition http_status :: "nat option \<Rightarrow> bool" where
  "http_status status = (case status of Some s \<Rightarrow> 100 \<le> s \<and> s \<le> 599 | None \<Rightarrow> True)"

definition requests :: "event list \<Rightarrow> nat" where
  "requests evs = length (filter (\<lambda>e. case e of HttpGet u \<Rightarrow> True | _ \<Rightarrow> False) evs)"

section \<open>Media prober\<close>

record video_info =
  i_width :: int
  i_height :: int
  i_duration :: real

text \<open>
  The callback of \<^verbatim>\<open>ffprobe\<close> rejects the promise when the prober reports an error.
  Otherwise it reads \<^verbatim>\<open>video.width\<close> of the first video stream; when there is none,
  \<^verbatim>\<open>video\<close> is \<^verbatim>\<open>undefined\<close> and the read throws inside the callback.
\<close>

definition getVideoDimensions :: "env \<Rightarrow> path \<Rightarrow> world \<Rightarrow> video_info outcome \<times> world" where
  "getVideoDimensions env videoPath w =
     (case ffprobe env videoPath of
        None \<Rightarrow> (Rejected FfprobeError, emit (Probe videoPath) w)
      | Some md \<Rightarrow>
          (case find (\<lambda>s. codec_type s = ''video'') (streams md) of
             None \<Rightarrow> (Uncaught TypeError, emit (Probe videoPath) w)
           | Some video \<Rightarrow>
               (Resolved \<lparr> i_width = s_width video, i_height = s_height video,
                            i_duration = format_duration md \<rparr>,
                emit (Probe videoPath) w)))"

section \<open>Rendering, publishing and the batch endpoint\<close>

definition addScrollingBanner ::
  "env \<Rightarrow> path \<Rightarrow> path \<Rightarrow> string \<Rightarrow> string \<Rightarrow> jsnum \<Rightarrow> banner_config \<Rightarrow> world
     \<Rightarrow> path outcome \<times> world" where
  "addScrollingBanner env inputPath outputPath avatarName platform duration bannerConfig w =
     await (getVideoDimensions env inputPath w) (\<lambda>info w1.
       case drawtextOptions bannerConfig avatarName platform duration
              (i_width info) (i_height info) of
         Inl e \<Rightarrow> (Rejected e, w1)
       | Inr opts \<Rightarrow>
           (case ffmpeg_save env inputPath outputPath opts of
              RenderEnd \<Rightarrow>
                (Resolved outputPath, create_file outputPath (emit (Render inputPath outputPath) w1))
            | RenderFailed partial \<Rightarrow>
                (Rejected FfmpegError,
                 if partial then create_file outputPath (emit (Render inputPath outputPath) w1)
                 else emit (Render inputPath outputPath) w1)))"

definition uploadToCloudinary :: "env \<Rightarrow> path \<Rightarrow> world \<Rightarrow> string outcome \<times> world" where
  "uploadToCloudinary env filePath w =
     (case cloudinary_upload env filePath of
        None \<Rightarrow> (Rejected UploadError, emit (Upload filePath) w)
      | Some secure_url \<Rightarrow> (Resolved secure_url, emit (Upload filePath) w))"

text \<open>
  The body of a \<^verbatim>\<open>POST /add-banners-batch\<close> request.  An absent or empty string is
  \<open>[]\<close>; \<open>platforms\<close> is \<open>None\<close> when it is absent or not an array.
\<close>

record batch_request =
  video_url :: string
  avatar_name :: string
  platforms :: "string list option"
  req_duration :: "jsnum option"
  req_banner_config :: banner_config

text \<open>
  The answers of the endpoint: the results, each a platform and a published URL; the
  rejection of the request; the failure, with the error whose message it reports; no
  answer at all, when an exception escaped; and no answer either, when the handler
  waits for ever on a promise that is never settled.
\<close>

datatype response =
    Json200 string "(string \<times> string) list"
  | Json400
  | Json500 error
  | NoResponse error
  | Hung

text \<open>The body of the loop over the platforms, giving the entry pushed on the results.\<close>

definition processPlatform ::
  "env \<Rightarrow> string \<Rightarrow> path \<Rightarrow> string \<Rightarrow> jsnum \<Rightarrow> banner_config \<Rightarrow> string \<Rightarrow> world
     \<Rightarrow> (string \<times> string) outcome \<times> world" where
  "processPlatform env jobId inputPath avatar vd bannerConfig platform w =
     (let outputPath = outputPathOf jobId platform in
      await (addScrollingBanner env inputPath outputPath avatar (toUpperCase platform) vd
               bannerConfig w) (\<lambda>_ w1.
      await (uploadToCloudinary env outputPath w1) (\<lambda>outputUrl w2.
      await (unlinkSync outputPath w2) (\<lambda>_ w3.
        (Resolved (toUpperCase platform, outputUrl), w3)))))"

fun batchLoop ::
  "env \<Rightarrow> string \<Rightarrow> path \<Rightarrow> string \<Rightarrow> jsnum \<Rightarrow> banner_config \<Rightarrow> string list
     \<Rightarrow> (string \<times> string) list \<Rightarrow> world \<Rightarrow> (string \<times> string) list outcome \<times> world" where
  "batchLoop env jobId inputPath avatar vd bannerConfig [] results w = (Resolved results, w)"
| "batchLoop env jobId inputPath avatar vd bannerConfig (platform # rest) results w =
     (case processPlatform env jobId inputPath avatar vd bannerConfig platform w of
        (Resolved entry, w1) \<Rightarrow>
          batchLoop env jobId inputPath avatar vd bannerConfig rest (results @ [entry]) w1
      | (Rejected e, w1) \<Rightarrow> (Rejected e, w1)
      | (Uncaught e, w1) \<Rightarrow> (Uncaught e, w1)
      | (Pending, w1) \<Rightarrow> (Pending, w1))"

text \<open>The \<^verbatim>\<open>try\<close> block of the batch handler.\<close>

definition batchTry ::
  "env \<Rightarrow> string \<Rightarrow> batch_request \<Rightarrow> string list \<Rightarrow> world
     \<Rightarrow> (string \<times> string) list outcome \<times> world" where
  "batchTry env jobId req ps w =
     (let inputPath = inputPathOf jobId in
      await (downloadVideo env (video_url req) inputPath 5 2000 w) (\<lambda>_ w1.
      await (getVideoDimensions env inputPath w1) (\<lambda>info w2.
      await (batchLoop env jobId inputPath (avatar_name req)
               (videoDuration (req_duration req) (i_duration info))
               (req_banner_config req) ps [] w2) (\<lambda>results w3.
      await (unlinkSync inputPath w3) (\<lambda>_ w4. (Resolved results, w4))))))"

text \<open>
  The handler: validation, the \<^verbatim>\<open>try\<close> block, and the \<^verbatim>\<open>catch\<close> block, which
  removes the input file if it exists and answers with the failure.
\<close>

definition addBannersBatch ::
  "env \<Rightarrow> string \<Rightarrow> batch_request \<Rightarrow> world \<Rightarrow> response \<times> world" where
  "addBannersBatch env jobId req w =
     (case platforms req of
        None \<Rightarrow> (Json400, w)
      | Some ps \<Rightarrow>
          if video_url req = [] \<or> avatar_name req = [] then (Json400, w)
          else
            (case batchTry env jobId req ps w of
               (Resolved results, w1) \<Rightarrow> (Json200 (avatar_name req) results, w1)
             | (Rejected e, w1) \<Rightarrow>
                 (Json500 e,
                  if inputPathOf jobId \<in> files w1 then snd (unlinkSync (inputPathOf jobId) w1)
                  else w1)
             | (Uncaught e, w1) \<Rightarrow> (NoResponse e, w1)
             | (Pending, w1) \<Rightarrow> (Hung, w1)))"

text \<open>Counting the calls of an execution.\<close>

definition fetches :: "event list \<Rightarrow> nat" where
  "fetches evs = length (filter (\<lambda>e. case e of Download u p \<Rightarrow> True | _ \<Rightarrow> False) evs)"

definition probes :: "event list \<Rightarrow> nat" where
  "probes evs = length (filter (\<lambda>e. case e of Probe p \<Rightarrow> True | _ \<Rightarrow> False) evs)"

text \<open>
  What it means for the environment that the work on one platform succeeds: the
  renderer ends on the options computed for it, and the store accepts the output.
\<close>

definition tagRenders ::
  "env \<Rightarrow> string \<Rightarrow> string \<Rightarrow> jsnum \<Rightarrow> banner_config \<Rightarrow> video_info \<Rightarrow> string \<Rightarrow> render_outcome"
  where
  "tagRenders env jobId avatar vd bannerConfig info platform =
     (case drawtextOptions bannerConfig avatar (toUpperCase platform) vd
             (i_width info) (i_height info) of
        Inl e \<Rightarrow> RenderFailed False
      | Inr opts \<Rightarrow> ffmpeg_save env (inputPathOf jobId) (outputPathOf jobId platform) opts)"

definition tagSucceeds ::
  "env \<Rightarrow> string \<Rightarrow> string \<Rightarrow> jsnum \<Rightarrow> banner_config \<Rightarrow> video_info \<Rightarrow> string \<Rightarrow> bool" where
  "tagSucceeds env jobId avatar vd bannerConfig info platform =
     (tagRenders env jobId avatar vd bannerConfig info platform = RenderEnd
      \<and> cloudinary_upload env (outputPathOf jobId platform) \<noteq> None)"

text \<open>The result entries that a response carries.\<close>

definition results_of :: "response \<Rightarrow> (string \<times> string) list" where
  "results_of r = (case r of Json200 a rs \<Rightarrow> rs | _ \<Rightarrow> [])"

subsection \<open>Example environments\<close>

definition world0 :: world where
  "world0 = \<lparr> files = {}, log = [] \<rparr>"

definition video_md :: metadata where
  "video_md =
     \<lparr> streams = [\<lparr> codec_type = ''audio'', s_width = 0, s_height = 0 \<rparr>,
                  \<lparr> codec_type = ''video'', s_width = 1080, s_height = 1920 \<rparr>],
       format_duration = 12 \<rparr>"

definition audio_md :: metadata where
  "audio_md =
     \<lparr> streams = [\<lparr> codec_type = ''audio'', s_width = 0, s_height = 0 \<rparr>],
       format_duration = 12 \<rparr>"

definition env_ok :: env where
  "env_ok =
     \<lparr> http_get = (\<lambda>url k. Fetched),
       ffprobe = (\<lambda>p. Some video_md),
       ffmpeg_save = (\<lambda>i out opts. RenderEnd),
       cloudinary_upload = (\<lambda>p. Some (''https://cdn'' @ p)) \<rparr>"

definition env_audio :: env where
  "env_audio = env_ok\<lparr>ffprobe := (\<lambda>p. Some audio_md)\<rparr>"




definition env_upload_fails :: env where
  "env_upload_fails =
     env_ok\<lparr>cloudinary_upload :=
              (\<lambda>p. if p = ''/tmp/output-j-x.mp4'' then None else Some (''https://cdn'' @ p))\<rparr>"

definition env_render_partial :: env where
  "env_render_partial = env_ok\<lparr>ffmpeg_save := (\<lambda>i out opts. RenderFailed True)\<rparr>"

definition req0 :: batch_request where
  "req0 = \<lparr> video_url = ''http://v'', avatar_name = ''Al'', platforms = Some [''tiktok'', ''x''],
            req_duration = None, req_banner_config = empty_config \<rparr>"

section \<open>Properties of the banner geometry\<close>

subsection \<open>The merged configuration\<close>

lemma merge_font_size_percent:
  "font_size_percent (mergeConfig b) =
     Some (case font_size_percent b of Some p \<Rightarrow> p | None \<Rightarrow> 0.04)"
  by (simp add: mergeConfig_def DEFAULT_BANNER_CONFIG_def spread_def split: option.splits)

lemma merge_y_percent:
  "y_percent (mergeConfig b) = Some (case y_percent b of Some p \<Rightarrow> p | None \<Rightarrow> 0.159)"
  by (simp add: mergeConfig_def DEFAULT_BANNER_CONFIG_def spread_def split: option.splits)

lemma merge_text_color:
  "text_color (mergeConfig b) =
     Some (case text_color b of Some s \<Rightarrow> s | None \<Rightarrow> ''#feb628'')"
  by (simp add: mergeConfig_def DEFAULT_BANNER_CONFIG_def spread_def split: option.splits)

lemma merge_bg_color:
  "bg_color (mergeConfig b) = Some (case bg_color b of Some s \<Rightarrow> s | None \<Rightarrow> ''#1a325b'')"
  by (simp add: mergeConfig_def DEFAULT_BANNER_CONFIG_def spread_def split: option.splits)

lemma merge_fill_color: "fill_color (mergeConfig b) = fill_color b"
  by (simp add: mergeConfig_def DEFAULT_BANNER_CONFIG_def spread_def split: option.splits)

lemma str_replace_absent:
  "CHR ''x'' \<notin> set s \<Longrightarrow> str_replace ''0x'' ''#'' s = s"
proof (induction s)
  case Nil
  then show ?case by simp
next
  case (Cons c cs)
  then show ?case by (cases cs) auto
qed

lemma calcTextColor_merged_ok: "\<exists>c. calcTextColor (mergeConfig b) = Inr c"
  by (simp add: calcTextColor_def normalizeColor_def or_str_def merge_text_color
      DEFAULT_BANNER_CONFIG_def split: option.splits)

lemma drawtextOptions_ok:
  "\<exists>tc bc. drawtextOptions b a p d w h =
     Inr \<lparr> dt_text = bannerText a p,
           fontsize = calcFontSize (mergeConfig b) w h,
           fontcolor = tc,
           x_speed = scrollSpeed 2 (calcFontSize (mergeConfig b) w h) (bannerText a p) w d,
           dt_y = calcBannerY (mergeConfig b) w h,
           box = (if show_background (mergeConfig b) = Some True
                  then Some (bc, Math_round (real_of_int (calcFontSize (mergeConfig b) w h) * 0.3))
                  else None) \<rparr>"
proof -
  obtain c where c: "calcTextColor (mergeConfig b) = Inr c"
    using calcTextColor_merged_ok by blast
  show ?thesis
    by (simp add: drawtextOptions_def c normalizeColor_def merge_bg_color Let_def)
qed

lemma calcYPercent_merged:
  "calcYPercent (mergeConfig b) w h = (case y_percent b of Some q \<Rightarrow> q | None \<Rightarrow> 0.159)"
  by (simp add: calcYPercent_def merge_y_percent)

lemma calcFontSize_merged:
  "calcFontSize (mergeConfig b) w h =
     Math_round (real_of_int (min w h) * (case font_size_percent b of Some p \<Rightarrow> p | None \<Rightarrow> 0.04))"
  by (simp add: calcFontSize_def merge_font_size_percent)


subsection \<open>Quotients in the range of doubles\<close>












subsection \<open>Font size\<close>

text \<open>
  Claim C1.  The font-size block prefers \<^verbatim>\<open>font_size_percent\<close> and means to fall back
  on converting the pixel \<^verbatim>\<open>font_size\<close> through the template height.  The block runs
  on the configuration merged with the defaults, and the defaults define
  \<^verbatim>\<open>font_size_percent\<close>: for every request the resolved size is the rounded
  product of the smaller dimension and the requested or default fraction, whatever
  \<^verbatim>\<open>font_size\<close> and \<^verbatim>\<open>template_height\<close> say.  A request with only
  \<^verbatim>\<open>font_size = 40\<close> and \<^verbatim>\<open>template_height = 1080\<close> on a 1080 by 1920 video
  resolves to 43, the default four percent, where the conversion branch, run on the
  same keys without the defaults, gives 71.
\<close>

theorem font_size_conversion_unreachable:
  "calcFontSize (mergeConfig b) w h =
     Math_round (real_of_int (min w h) * (case font_size_percent b of Some p \<Rightarrow> p | None \<Rightarrow> 0.04))
   \<and> calcFontSize
       (mergeConfig (empty_config\<lparr>font_size := Some 40, template_height := Some 1080\<rparr>))
       1080 1920 = 43
   \<and> calcFontSize (empty_config\<lparr>font_size := Some 40, template_height := Some 1080\<rparr>)
       1080 1920 = 71"
proof (intro conjI)
  show "calcFontSize (mergeConfig b) w h =
     Math_round (real_of_int (min w h) * (case font_size_percent b of Some p \<Rightarrow> p | None \<Rightarrow> 0.04))"
    by (rule calcFontSize_merged)
  show "calcFontSize
       (mergeConfig (empty_config\<lparr>font_size := Some 40, template_height := Some 1080\<rparr>))
       1080 1920 = 43"
    by (simp add: calcFontSize_merged empty_config_def Math_round_def)
  show "calcFontSize (empty_config\<lparr>font_size := Some 40, template_height := Some 1080\<rparr>)
       1080 1920 = 71"
    by (simp add: calcFontSize_def templateHeightOf_def empty_config_def Math_round_def)
qed

text \<open>
  Claim C5.  A request with \<^verbatim>\<open>font_size = 40\<close> and \<^verbatim>\<open>template_height = 1080\<close>
  on a 1080 by 1920 video is meant to go through the conversion of the pixel value.  It
  resolves 43 pixels, what a request without these two keys resolves: the conversion is
  not applied, and the result is not within one pixel of the original 40.
\<close>

theorem roundtrip_request_resolves_default:
  "calcFontSize
     (mergeConfig (empty_config\<lparr>font_size := Some 40, template_height := Some 1080\<rparr>))
     1080 1920 = calcFontSize (mergeConfig empty_config) 1080 1920
   \<and> \<not> \<bar>calcFontSize
            (mergeConfig (empty_config\<lparr>font_size := Some 40, template_height := Some 1080\<rparr>))
            1080 1920 - 40\<bar> \<le> 1
   \<and> (\<exists>opts. drawtextOptions (empty_config\<lparr>font_size := Some 40, template_height := Some 1080\<rparr>)
                 a p d 1080 1920 = Inr opts
          \<and> fontsize opts = 43)"
proof -
  have "calcFontSize
     (mergeConfig (empty_config\<lparr>font_size := Some 40, template_height := Some 1080\<rparr>))
     1080 1920 = 43"
    by (simp add: calcFontSize_merged empty_config_def Math_round_def)
  moreover have "calcFontSize (mergeConfig empty_config) 1080 1920 = 43"
    by (simp add: calcFontSize_merged empty_config_def Math_round_def)
  ultimately show ?thesis
    using drawtextOptions_ok
      [of "empty_config\<lparr>font_size := Some 40, template_height := Some 1080\<rparr>" a p d 1080 1920]
    by auto
qed

subsection \<open>Text colour\<close>

text \<open>
  Claim C3.  The colour expression means \<^verbatim>\<open>text_color\<close>, else \<^verbatim>\<open>fill_color\<close>,
  else the default gold, normalised.  It reads the merged configuration, in which
  \<^verbatim>\<open>text_color\<close> is the default gold whenever the request leaves it out: the fill
  colour is used only when the request sets \<^verbatim>\<open>text_color\<close> to the empty string.
  A request with only \<^verbatim>\<open>fill_color = 0x00ff00\<close> resolves to the gold
  \<^verbatim>\<open>#feb628\<close>, where the expression on the same keys without the defaults gives
  \<^verbatim>\<open>#00ff00\<close>.
\<close>

theorem text_color_fill_ignored:
  "calcTextColor (mergeConfig b) =
     Inr (str_replace ''0x'' ''#''
            (case text_color b of
               Some s \<Rightarrow>
                 if s \<noteq> [] then s
                 else (case fill_color b of
                         Some f \<Rightarrow> if f \<noteq> [] then f else ''#feb628''
                       | None \<Rightarrow> ''#feb628'')
             | None \<Rightarrow> ''#feb628''))
   \<and> calcTextColor (mergeConfig (empty_config\<lparr>fill_color := Some ''0x00ff00''\<rparr>))
       = Inr ''#feb628''
   \<and> calcTextColor (empty_config\<lparr>fill_color := Some ''0x00ff00''\<rparr>) = Inr ''#00ff00''"
proof (intro conjI)
  show "calcTextColor (mergeConfig b) =
     Inr (str_replace ''0x'' ''#''
            (case text_color b of
               Some s \<Rightarrow>
                 if s \<noteq> [] then s
                 else (case fill_color b of
                         Some f \<Rightarrow> if f \<noteq> [] then f else ''#feb628''
                       | None \<Rightarrow> ''#feb628'')
             | None \<Rightarrow> ''#feb628''))"
    by (simp add: calcTextColor_def normalizeColor_def or_str_def merge_text_color
        merge_fill_color DEFAULT_BANNER_CONFIG_def split: option.splits)
  show "calcTextColor (mergeConfig (empty_config\<lparr>fill_color := Some ''0x00ff00''\<rparr>))
       = Inr ''#feb628''"
    by (simp add: calcTextColor_def normalizeColor_def or_str_def merge_text_color
        merge_fill_color DEFAULT_BANNER_CONFIG_def empty_config_def)
  show "calcTextColor (empty_config\<lparr>fill_color := Some ''0x00ff00''\<rparr>) = Inr ''#00ff00''"
    by (simp add: calcTextColor_def normalizeColor_def or_str_def
        DEFAULT_BANNER_CONFIG_def empty_config_def)
qed

subsection \<open>Vertical position\<close>

text \<open>
  Claim C9.  The latest version always yields drawing options, and their vertical
  position is the rounded sum of the height times the resolved fraction and three
  tenths of the resolved font size.  The two earlier versions round the height times
  the fraction alone: the merged \<^verbatim>\<open>y_percent\<close> in the second, the constant 0.159
  in the first.
\<close>

theorem bannerY_formula:
  "(\<exists>opts. drawtextOptions b a p d w h = Inr opts
        \<and> dt_y opts =
            Math_round (real_of_int h * calcYPercent (mergeConfig b) w h
                        + 0.3 * real_of_int (fontsize opts))
        \<and> fontsize opts = calcFontSize (mergeConfig b) w h)
   \<and> bannerY_v2 b h =
       Some (Math_round (real_of_int h * (case y_percent b of Some q \<Rightarrow> q | None \<Rightarrow> 0.159)))
   \<and> bannerY_v1 h = Math_round (real_of_int h * 0.159)"
proof (intro conjI)
  obtain tc bc where "drawtextOptions b a p d w h =
     Inr \<lparr> dt_text = bannerText a p,
           fontsize = calcFontSize (mergeConfig b) w h,
           fontcolor = tc,
           x_speed = scrollSpeed 2 (calcFontSize (mergeConfig b) w h) (bannerText a p) w d,
           dt_y = calcBannerY (mergeConfig b) w h,
           box = (if show_background (mergeConfig b) = Some True
                  then Some (bc, Math_round (real_of_int (calcFontSize (mergeConfig b) w h) * 0.3))
                  else None) \<rparr>"
    using drawtextOptions_ok by blast
  then show "\<exists>opts. drawtextOptions b a p d w h = Inr opts
        \<and> dt_y opts =
            Math_round (real_of_int h * calcYPercent (mergeConfig b) w h
                        + 0.3 * real_of_int (fontsize opts))
        \<and> fontsize opts = calcFontSize (mergeConfig b) w h"
    by (simp add: calcBannerY_def mult.commute)
  show "bannerY_v2 b h =
       Some (Math_round (real_of_int h * (case y_percent b of Some q \<Rightarrow> q | None \<Rightarrow> 0.159)))"
    by (simp add: bannerY_v2_def merge_y_percent)
  show "bannerY_v1 h = Math_round (real_of_int h * 0.159)"
    by (simp add: bannerY_v1_def)
qed

subsection \<open>Scroll speed\<close>




section \<open>Properties of the fetcher\<close>

declare downloadVideo_loop.simps [simp del]

lemma files_emit [simp]: "files (emit e w) = files w"
  by (simp add: emit_def)

lemma log_emit [simp]: "log (emit e w) = log w @ [e]"
  by (simp add: emit_def)

lemma files_create_file [simp]: "files (create_file p w) = insert p (files w)"
  by (simp add: create_file_def)

lemma log_create_file [simp]: "log (create_file p w) = log w"
  by (simp add: create_file_def)

lemma fetches_simps [simp]:
  "fetches [] = 0"
  "fetches (e # es) = (case e of Download u p \<Rightarrow> 1 | _ \<Rightarrow> 0) + fetches es"
  "fetches (xs @ ys) = fetches xs + fetches ys"
  by (simp_all add: fetches_def split: event.splits)

lemma probes_simps [simp]:
  "probes [] = 0"
  "probes (e # es) = (case e of Probe p \<Rightarrow> 1 | _ \<Rightarrow> 0) + probes es"
  "probes (xs @ ys) = probes xs + probes ys"
  by (simp_all add: probes_def split: event.splits)

lemma requests_simps [simp]:
  "requests [] = 0"
  "requests (e # es) = (case e of HttpGet u \<Rightarrow> 1 | _ \<Rightarrow> 0) + requests es"
  "requests (xs @ ys) = requests xs + requests ys"
  by (simp_all add: requests_def split: event.splits)

lemma spec_retryable_iff: "http_status s \<Longrightarrow> retryable s = spec_retryable s"
  by (auto simp: http_status_def retryable_def spec_retryable_def split: option.splits)

lemma spec_retryable_imp: "spec_retryable s \<Longrightarrow> retryable s"
  by (auto simp: retryable_def spec_retryable_def split: option.splits)









text \<open>The fetcher: what a resolved download leaves behind.\<close>

lemma downloadVideo_loop_effects:
  "downloadVideo_loop env url out m d k w = (r, w') \<Longrightarrow>
     fetches (log w') = fetches (log w) \<and> probes (log w') = probes (log w)
     \<and> (r = Resolved () \<and> k \<le> m \<longrightarrow> out \<in> files w') \<and> (\<forall>e. r \<noteq> Uncaught e)"
proof (induction env url out m d k w rule: downloadVideo_loop.induct)
  case (1 env url out m d k w)
  show ?case
  proof (cases "k \<le> m")
    case False
    with "1.prems" show ?thesis
      by (auto simp add: downloadVideo_loop.simps [of env url out m d k w])
  next
    case True
    show ?thesis
    proof (cases "http_get env url k")
      case Fetched
      with True "1.prems" show ?thesis
        by (auto simp add: downloadVideo_loop.simps [of env url out m d k w])
    next
      case (WriterFailed c)
      with True "1.prems" show ?thesis
        by (auto simp add: downloadVideo_loop.simps [of env url out m d k w] split: if_splits)
    next
      case (BodyFailed c)
      with True "1.prems" show ?thesis
        by (auto simp add: downloadVideo_loop.simps [of env url out m d k w] split: if_splits)
    next
      case (RequestFailed s)
      show ?thesis
      proof (cases "retryable s \<and> k < m")
        case False
        with True RequestFailed "1.prems" show ?thesis
          by (auto simp add: downloadVideo_loop.simps [of env url out m d k w])
      next
        case rt: True
        with True RequestFailed "1.prems"
        have "downloadVideo_loop env url out m d (k + 1)
                (emit (Sleep (d * 2 ^ (k - 1))) (emit (HttpGet url) w)) = (r, w')"
          by (simp add: downloadVideo_loop.simps [of env url out m d k w])
        from "1.IH" [OF True RequestFailed rt this] rt show ?thesis
          by simp
      qed
    qed
  qed
qed

lemma downloadVideo_not_Uncaught: "fst (downloadVideo env url out m d w) \<noteq> Uncaught e"
  using downloadVideo_loop_effects [of env url out m d 1 "emit (Download url out) w"]
  by (cases "downloadVideo_loop env url out m d 1 (emit (Download url out) w)")
     (auto simp: downloadVideo_def)

lemma downloadVideo_effects:
  assumes "downloadVideo env url out 5 2000 w = (Resolved (), w')"
  shows "fetches (log w') = fetches (log w) + 1" and "probes (log w') = probes (log w)"
    and "out \<in> files w'"
  using downloadVideo_loop_effects [OF assms [unfolded downloadVideo_def]] by simp_all

section \<open>Properties of the prober\<close>

lemma getVideoDimensions_video:
  assumes "ffprobe env p = Some md"
    and "find (\<lambda>s. codec_type s = ''video'') (streams md) = Some v"
  shows "getVideoDimensions env p w =
           (Resolved \<lparr> i_width = s_width v, i_height = s_height v,
                        i_duration = format_duration md \<rparr>, emit (Probe p) w)"
  using assms by (simp add: getVideoDimensions_def)

text \<open>
  Claim C7.  When the prober reports an error, the promise is rejected with it.  When
  the metadata holds no video stream, as for a file with a single audio stream, the
  promise is not rejected: a \<open>TypeError\<close> escapes from the callback, and the batch
  endpoint, which awaits that promise, gives no answer.
\<close>

theorem probe_without_video_stream:
  "fst (getVideoDimensions env_audio (inputPathOf ''j'') world0) = Uncaught TypeError
   \<and> fst (addBannersBatch env_audio ''j'' req0 world0) = NoResponse TypeError
   \<and> fst (getVideoDimensions (env\<lparr>ffprobe := (\<lambda>p. None)\<rparr>) q w) = Rejected FfprobeError"
  by (simp add: getVideoDimensions_def env_audio_def env_ok_def audio_md_def
      addBannersBatch_def req0_def batchTry_def downloadVideo_def
      downloadVideo_loop.simps await_def Let_def)

section \<open>Properties of the batch endpoint\<close>

lemma drawtextOptions_Inr: "\<exists>opts. drawtextOptions b a p d w h = Inr opts"
  using drawtextOptions_ok [of b a p d w h] by blast

lemma tagRenders_env_ok [simp]: "tagRenders env_ok jobId avatar vd bc info p = RenderEnd"
  using drawtextOptions_Inr [of bc avatar "toUpperCase p" vd "i_width info" "i_height info"]
  by (auto simp: tagRenders_def env_ok_def)

lemma tagRenders_env_upload_fails [simp]:
  "tagRenders env_upload_fails jobId avatar vd bc info p = RenderEnd"
  using drawtextOptions_Inr [of bc avatar "toUpperCase p" vd "i_width info" "i_height info"]
  by (auto simp: tagRenders_def env_upload_fails_def env_ok_def)

lemma tagRenders_env_render_partial [simp]:
  "tagRenders env_render_partial jobId avatar vd bc info p = RenderFailed True"
  using drawtextOptions_Inr [of bc avatar "toUpperCase p" vd "i_width info" "i_height info"]
  by (auto simp: tagRenders_def env_render_partial_def env_ok_def)

lemma inputPathOf_j: "inputPathOf ''j'' = ''/tmp/input-j.mp4''"
  by (simp add: inputPathOf_def path_join_def path_normalize_def TEMP_DIR_def)

lemma outputPathOf_j_tiktok: "outputPathOf ''j'' ''tiktok'' = ''/tmp/output-j-tiktok.mp4''"
  by (simp add: outputPathOf_def path_join_def path_normalize_def TEMP_DIR_def)

lemma outputPathOf_j_x: "outputPathOf ''j'' ''x'' = ''/tmp/output-j-x.mp4''"
  by (simp add: outputPathOf_def path_join_def path_normalize_def TEMP_DIR_def)

text \<open>
  The output path of a platform tag that walks up the directory can be the input path.
\<close>

lemma outputPathOf_collision: "outputPathOf ''j'' ''/../input-j'' = inputPathOf ''j''"
  by (simp add: outputPathOf_def inputPathOf_def path_join_def path_normalize_def TEMP_DIR_def)

lemma download_env_ok:
  "downloadVideo (env_ok\<lparr>ffmpeg_save := f, cloudinary_upload := g\<rparr>) url out 5 2000 w =
     (Resolved (), create_file out (emit (HttpGet url) (emit (Download url out) w)))"
  by (simp add: downloadVideo_def downloadVideo_loop.simps env_ok_def)

text \<open>One platform.\<close>

lemma processPlatform_succeeds:
  assumes "ffprobe env (inputPathOf jobId) = Some md"
    and "find (\<lambda>s. codec_type s = ''video'') (streams md) = Some v"
    and "info = \<lparr> i_width = s_width v, i_height = s_height v, i_duration = format_duration md \<rparr>"
    and "tagRenders env jobId avatar vd bc info p = RenderEnd"
    and "cloudinary_upload env (outputPathOf jobId p) = Some u"
  shows "\<exists>w'. processPlatform env jobId (inputPathOf jobId) avatar vd bc p w
                 = (Resolved (toUpperCase p, u), w')
          \<and> files w' = files w - {outputPathOf jobId p}
          \<and> probes (log w') = probes (log w) + 1
          \<and> fetches (log w') = fetches (log w)"
proof -
  obtain opts where o: "drawtextOptions bc avatar (toUpperCase p) vd (s_width v) (s_height v) = Inr opts"
    using drawtextOptions_Inr by blast
  have r: "ffmpeg_save env (inputPathOf jobId) (outputPathOf jobId p) opts = RenderEnd"
    using assms(3,4) o by (simp add: tagRenders_def)
  show ?thesis
    using assms(5) o r
    by (simp add: processPlatform_def addScrollingBanner_def await_def
        getVideoDimensions_video [OF assms(1,2)] uploadToCloudinary_def unlinkSync_def Let_def)
qed

lemma processPlatform_fails:
  assumes "ffprobe env (inputPathOf jobId) = Some md"
    and "find (\<lambda>s. codec_type s = ''video'') (streams md) = Some v"
    and "info = \<lparr> i_width = s_width v, i_height = s_height v, i_duration = format_duration md \<rparr>"
    and "\<not> tagSucceeds env jobId avatar vd bc info p"
  shows "\<exists>e w'. processPlatform env jobId (inputPathOf jobId) avatar vd bc p w = (Rejected e, w')"
proof -
  obtain opts where o: "drawtextOptions bc avatar (toUpperCase p) vd (s_width v) (s_height v) = Inr opts"
    using drawtextOptions_Inr by blast
  show ?thesis
    using assms(3,4) o
    by (auto simp add: processPlatform_def addScrollingBanner_def await_def tagSucceeds_def
        tagRenders_def getVideoDimensions_video [OF assms(1,2)] uploadToCloudinary_def
        unlinkSync_def Let_def split: render_outcome.splits option.splits)
qed

lemma processPlatform_fails_after_output:
  assumes "ffprobe env (inputPathOf jobId) = Some md"
    and "find (\<lambda>s. codec_type s = ''video'') (streams md) = Some v"
    and "info = \<lparr> i_width = s_width v, i_height = s_height v, i_duration = format_duration md \<rparr>"
    and "(tagRenders env jobId avatar vd bc info p = RenderEnd
            \<and> cloudinary_upload env (outputPathOf jobId p) = None)
         \<or> tagRenders env jobId avatar vd bc info p = RenderFailed True"
  shows "\<exists>e w'. processPlatform env jobId (inputPathOf jobId) avatar vd bc p w = (Rejected e, w')
           \<and> files w' = insert (outputPathOf jobId p) (files w)"
proof -
  obtain opts where o: "drawtextOptions bc avatar (toUpperCase p) vd (s_width v) (s_height v) = Inr opts"
    using drawtextOptions_Inr by blast
  show ?thesis
    using assms(3,4) o
    by (auto simp add: processPlatform_def addScrollingBanner_def await_def
        tagRenders_def getVideoDimensions_video [OF assms(1,2)] uploadToCloudinary_def
        unlinkSync_def Let_def split: render_outcome.splits option.splits)
qed

text \<open>The loop.\<close>

lemma batchLoop_prefix:
  assumes "ffprobe env (inputPathOf jobId) = Some md"
    and "find (\<lambda>s. codec_type s = ''video'') (streams md) = Some v"
    and "info = \<lparr> i_width = s_width v, i_height = s_height v, i_duration = format_duration md \<rparr>"
    and "\<forall>q\<in>set pre. tagRenders env jobId avatar vd bc info q = RenderEnd
                      \<and> cloudinary_upload env (outputPathOf jobId q) = Some (u q)"
  shows "\<exists>w'. batchLoop env jobId (inputPathOf jobId) avatar vd bc (pre @ rest) results w
               = batchLoop env jobId (inputPathOf jobId) avatar vd bc rest
                   (results @ map (\<lambda>q. (toUpperCase q, u q)) pre) w'
          \<and> files w' = files w - outputPathOf jobId ` set pre
          \<and> probes (log w') = probes (log w) + length pre
          \<and> fetches (log w') = fetches (log w)"
  using assms(4)
proof (induction pre arbitrary: results w)
  case Nil
  show ?case by (intro exI [of _ w]) simp
next
  case (Cons q pre)
  from Cons.prems have q: "tagRenders env jobId avatar vd bc info q = RenderEnd"
    "cloudinary_upload env (outputPathOf jobId q) = Some (u q)" by simp_all
  from processPlatform_succeeds [OF assms(1,2,3) q, of w]
  obtain w1 where w1: "processPlatform env jobId (inputPathOf jobId) avatar vd bc q w
                 = (Resolved (toUpperCase q, u q), w1)"
          "files w1 = files w - {outputPathOf jobId q}"
          "probes (log w1) = probes (log w) + 1"
          "fetches (log w1) = fetches (log w)" by blast
  from Cons.prems have "\<forall>q\<in>set pre. tagRenders env jobId avatar vd bc info q = RenderEnd
                      \<and> cloudinary_upload env (outputPathOf jobId q) = Some (u q)" by simp
  from Cons.IH [OF this, of "results @ [(toUpperCase q, u q)]" w1]
  obtain w' where w': "batchLoop env jobId (inputPathOf jobId) avatar vd bc (pre @ rest)
                 (results @ [(toUpperCase q, u q)]) w1
               = batchLoop env jobId (inputPathOf jobId) avatar vd bc rest
                   ((results @ [(toUpperCase q, u q)]) @ map (\<lambda>q. (toUpperCase q, u q)) pre) w'"
          "files w' = files w1 - outputPathOf jobId ` set pre"
          "probes (log w') = probes (log w1) + length pre"
          "fetches (log w') = fetches (log w1)" by blast
  show ?case
    using w1 w' by (intro exI [of _ w']) auto
qed

lemma batchLoop_some_fails:
  assumes "ffprobe env (inputPathOf jobId) = Some md"
    and "find (\<lambda>s. codec_type s = ''video'') (streams md) = Some v"
    and "info = \<lparr> i_width = s_width v, i_height = s_height v, i_duration = format_duration md \<rparr>"
    and "\<exists>p\<in>set ps. \<not> tagSucceeds env jobId avatar vd bc info p"
  shows "\<exists>e w'. batchLoop env jobId (inputPathOf jobId) avatar vd bc ps results w = (Rejected e, w')"
  using assms(4)
proof (induction ps arbitrary: results w)
  case Nil
  then show ?case by simp
next
  case (Cons q ps)
  show ?case
  proof (cases "tagSucceeds env jobId avatar vd bc info q")
    case False
    from processPlatform_fails [OF assms(1,2,3) False, of w] show ?thesis
      by auto
  next
    case True
    then obtain url where q: "tagRenders env jobId avatar vd bc info q = RenderEnd"
      "cloudinary_upload env (outputPathOf jobId q) = Some url"
      by (auto simp: tagSucceeds_def)
    from processPlatform_succeeds [OF assms(1,2,3) q, of w]
    obtain w1 where w1: "processPlatform env jobId (inputPathOf jobId) avatar vd bc q w
                 = (Resolved (toUpperCase q, url), w1)" by blast
    from Cons.prems True have "\<exists>p\<in>set ps. \<not> tagSucceeds env jobId avatar vd bc info p"
      by auto
    from Cons.IH [OF this, of "results @ [(toUpperCase q, url)]" w1] w1 show ?thesis
      by simp
  qed
qed


lemma batch_error_removes_input:
  "fst (addBannersBatch env jobId req w) = Json500 e \<Longrightarrow>
     inputPathOf jobId \<notin> files (snd (addBannersBatch env jobId req w))"
  by (auto simp: addBannersBatch_def unlinkSync_def split: option.splits if_splits prod.splits
      outcome.splits)

text \<open>
  Claim C2, as stated, fails.  In a batch of two platforms in which every stage succeeds
  the source is fetched once and two entries are returned in the order of the tags, but
  the source is probed three times: once by the handler and once more inside the
  rendering of each platform.
\<close>

theorem batch_probes_counterexample:
  "fst (addBannersBatch env_ok ''j'' req0 world0)
     = Json200 ''Al'' [(''TIKTOK'', ''https://cdn/tmp/output-j-tiktok.mp4''),
                       (''X'', ''https://cdn/tmp/output-j-x.mp4'')]
   \<and> fetches (log (snd (addBannersBatch env_ok ''j'' req0 world0))) = 1
   \<and> probes (log (snd (addBannersBatch env_ok ''j'' req0 world0))) = 3"
proof -
  obtain o1 where o1:
    "drawtextOptions empty_config ''Al'' ''TIKTOK'' (Num 12) 1080 1920 = Inr o1"
    using drawtextOptions_Inr by blast
  obtain o2 where o2:
    "drawtextOptions empty_config ''Al'' ''X'' (Num 12) 1080 1920 = Inr o2"
    using drawtextOptions_Inr by blast
  show ?thesis
    by (simp add: addBannersBatch_def req0_def batchTry_def downloadVideo_def
        downloadVideo_loop.simps env_ok_def video_md_def world0_def await_def
        getVideoDimensions_def processPlatform_def addScrollingBanner_def
        uploadToCloudinary_def unlinkSync_def inputPathOf_j outputPathOf_j_tiktok
        outputPathOf_j_x o1 o2 videoDuration_def toUpperCase_def upper_char_def Let_def)
qed

text \<open>
  Claim C2, amended.  For a valid batch request in which the fetch resolves, the probe
  finds a video stream, the render and the publication of every tag succeed, and no
  output path is the input path: the endpoint answers with one entry per tag, the
  upper-cased tag and the published URL, in the order of the tags; it fetches the
  source once and probes it once plus once per tag.
\<close>

theorem batch_all_succeed:
  assumes "platforms req = Some ps" and "video_url req \<noteq> []" and "avatar_name req \<noteq> []"
    and "fst (downloadVideo env (video_url req) (inputPathOf jobId) 5 2000 w) = Resolved ()"
    and "ffprobe env (inputPathOf jobId) = Some md"
    and "find (\<lambda>s. codec_type s = ''video'') (streams md) = Some v"
    and "\<forall>p\<in>set ps.
           tagRenders env jobId (avatar_name req)
             (videoDuration (req_duration req) (format_duration md)) (req_banner_config req)
             \<lparr> i_width = s_width v, i_height = s_height v, i_duration = format_duration md \<rparr> p
             = RenderEnd
           \<and> cloudinary_upload env (outputPathOf jobId p) = Some (u p)"
    and "\<forall>p\<in>set ps. outputPathOf jobId p \<noteq> inputPathOf jobId"
  shows "fst (addBannersBatch env jobId req w)
           = Json200 (avatar_name req) (map (\<lambda>p. (toUpperCase p, u p)) ps)
       \<and> fetches (log (snd (addBannersBatch env jobId req w))) = fetches (log w) + 1
       \<and> probes (log (snd (addBannersBatch env jobId req w))) = probes (log w) + 1 + length ps"
proof -
  let ?inp = "inputPathOf jobId"
  let ?info = "\<lparr> i_width = s_width v, i_height = s_height v, i_duration = format_duration md \<rparr>"
  obtain w1 where d: "downloadVideo env (video_url req) ?inp 5 2000 w = (Resolved (), w1)"
    using assms(4) by (metis prod.collapse)
  note e1 = downloadVideo_effects [OF d]
  let ?w2 = "emit (Probe ?inp) w1"
  from batchLoop_prefix [OF assms(5,6) refl assms(7), of "[]" "[]" ?w2]
  obtain w3 where w3:
    "batchLoop env jobId ?inp (avatar_name req)
       (videoDuration (req_duration req) (format_duration md)) (req_banner_config req) ps [] ?w2
       = (Resolved (map (\<lambda>p. (toUpperCase p, u p)) ps), w3)"
    "files w3 = files ?w2 - outputPathOf jobId ` set ps"
    "probes (log w3) = probes (log ?w2) + length ps"
    "fetches (log w3) = fetches (log ?w2)"
    by auto
  have inp: "?inp \<in> files w3"
    using w3(2) e1(3) assms(8) by auto
  have "batchTry env jobId req ps w
          = (Resolved (map (\<lambda>p. (toUpperCase p, u p)) ps),
             emit (Unlink ?inp) (w3\<lparr>files := files w3 - {?inp}\<rparr>))"
    using inp
    by (simp add: batchTry_def d await_def getVideoDimensions_video [OF assms(5,6)] w3(1)
        unlinkSync_def Let_def)
  then show ?thesis
    using assms(1,2,3) w3(3,4) e1(1,2) by (simp add: addBannersBatch_def)
qed

text \<open>Claim C2, amended: an instance, two platforms in an environment where all succeeds.\<close>

theorem batch_all_succeed_witness:
  "fst (addBannersBatch env_ok ''j'' req0 world0)
     = Json200 ''Al'' [(toUpperCase ''tiktok'', ''https://cdn/tmp/output-j-tiktok.mp4''),
                       (toUpperCase ''x'', ''https://cdn/tmp/output-j-x.mp4'')]
   \<and> fetches (log (snd (addBannersBatch env_ok ''j'' req0 world0))) = fetches (log world0) + 1
   \<and> probes (log (snd (addBannersBatch env_ok ''j'' req0 world0))) = probes (log world0) + 1 + 2"
  using batch_all_succeed
    [of req0 "[''tiktok'', ''x'']" env_ok "''j''" world0 video_md
        "\<lparr> codec_type = ''video'', s_width = 1080, s_height = 1920 \<rparr>"
        "\<lambda>p. ''https://cdn'' @ outputPathOf ''j'' p"]
    download_env_ok [where f = "ffmpeg_save env_ok" and g = "cloudinary_upload env_ok"
                       and url = "''http://v''" and out = "''/tmp/input-j.mp4''" and w = world0]
  by (simp add: req0_def inputPathOf_j outputPathOf_j_tiktok outputPathOf_j_x)
     (simp add: env_ok_def video_md_def)

text \<open>
  Claim C8.  For a valid batch request whose fetch settles and whose probe finds a video
  stream: when the render or the publication of some tag fails, the endpoint answers
  with the failure, the answer carries no result entries, and the shared input file
  does not exist afterwards.
\<close>

theorem batch_failure_cleans_input:
  assumes "platforms req = Some ps" and "video_url req \<noteq> []" and "avatar_name req \<noteq> []"
    and "fst (downloadVideo env (video_url req) (inputPathOf jobId) 5 2000 w) \<noteq> Pending"
    and "ffprobe env (inputPathOf jobId) = Some md"
    and "find (\<lambda>s. codec_type s = ''video'') (streams md) = Some v"
    and "\<exists>p\<in>set ps.
           \<not> tagSucceeds env jobId (avatar_name req)
               (videoDuration (req_duration req) (format_duration md)) (req_banner_config req)
               \<lparr> i_width = s_width v, i_height = s_height v, i_duration = format_duration md \<rparr> p"
  shows "(\<exists>e. fst (addBannersBatch env jobId req w) = Json500 e)
       \<and> results_of (fst (addBannersBatch env jobId req w)) = []
       \<and> inputPathOf jobId \<notin> files (snd (addBannersBatch env jobId req w))"
proof -
  let ?inp = "inputPathOf jobId"
  obtain r1 w1 where d: "downloadVideo env (video_url req) ?inp 5 2000 w = (r1, w1)"
    by (cases "downloadVideo env (video_url req) ?inp 5 2000 w") auto
  have nu: "r1 \<noteq> Uncaught e" for e
    using downloadVideo_not_Uncaught [of env "video_url req" ?inp 5 2000 w e] d by simp
  have "\<exists>e w'. batchTry env jobId req ps w = (Rejected e, w')"
  proof (cases r1)
    case (Resolved x)
    from batchLoop_some_fails [OF assms(5,6) refl assms(7), of "[]" "emit (Probe ?inp) w1"]
    show ?thesis
      by (auto simp add: batchTry_def d Resolved await_def
          getVideoDimensions_video [OF assms(5,6)] Let_def)
  next
    case (Rejected e)
    then show ?thesis by (simp add: batchTry_def d await_def Let_def)
  next
    case (Uncaught e)
    with nu show ?thesis by blast
  next
    case Pending
    with assms(4) d show ?thesis by simp
  qed
  then obtain e w' where "batchTry env jobId req ps w = (Rejected e, w')" by blast
  then have j: "fst (addBannersBatch env jobId req w) = Json500 e"
    using assms(1,2,3) by (simp add: addBannersBatch_def)
  from j batch_error_removes_input [OF j] show ?thesis
    by (simp add: results_of_def)
qed

text \<open>
  Claim C8: an instance, two platforms, the publication of the second failing after the
  first has succeeded.
\<close>

theorem batch_failure_cleans_input_witness:
  "(\<exists>e. fst (addBannersBatch env_upload_fails ''j'' req0 world0) = Json500 e)
   \<and> results_of (fst (addBannersBatch env_upload_fails ''j'' req0 world0)) = []
   \<and> inputPathOf ''j'' \<notin> files (snd (addBannersBatch env_upload_fails ''j'' req0 world0))"
  using batch_failure_cleans_input
    [of req0 "[''tiktok'', ''x'']" env_upload_fails "''j''" world0 video_md
        "\<lparr> codec_type = ''video'', s_width = 1080, s_height = 1920 \<rparr>"]
  by (simp add: req0_def tagSucceeds_def outputPathOf_j_x)
     (simp add: env_upload_fails_def env_ok_def video_md_def downloadVideo_def
        downloadVideo_loop.simps)

text \<open>
  Claim C10.  For a valid batch request whose fetch resolves and whose probe finds a
  video stream: when the tags before some tag succeed and that tag fails after its output
  file was created, by a failed publication or by a render that leaves a partial output,
  and its output path is not the input path, then the endpoint answers with the failure,
  the input file is gone and that output file is still on disk.
\<close>

theorem batch_failure_leaves_output:
  assumes "platforms req = Some (pre @ p # post)"
    and "video_url req \<noteq> []" and "avatar_name req \<noteq> []"
    and "fst (downloadVideo env (video_url req) (inputPathOf jobId) 5 2000 w) = Resolved ()"
    and "ffprobe env (inputPathOf jobId) = Some md"
    and "find (\<lambda>s. codec_type s = ''video'') (streams md) = Some v"
    and "vd = videoDuration (req_duration req) (format_duration md)"
    and "info = \<lparr> i_width = s_width v, i_height = s_height v, i_duration = format_duration md \<rparr>"
    and "\<forall>q\<in>set pre. tagSucceeds env jobId (avatar_name req) vd (req_banner_config req) info q"
    and "(tagRenders env jobId (avatar_name req) vd (req_banner_config req) info p = RenderEnd
            \<and> cloudinary_upload env (outputPathOf jobId p) = None)
         \<or> tagRenders env jobId (avatar_name req) vd (req_banner_config req) info p
             = RenderFailed True"
    and "outputPathOf jobId p \<noteq> inputPathOf jobId"
  shows "(\<exists>e. fst (addBannersBatch env jobId req w) = Json500 e)
       \<and> outputPathOf jobId p \<in> files (snd (addBannersBatch env jobId req w))
       \<and> inputPathOf jobId \<notin> files (snd (addBannersBatch env jobId req w))"
proof -
  let ?inp = "inputPathOf jobId"
  let ?u = "\<lambda>q. the (cloudinary_upload env (outputPathOf jobId q))"
  obtain w1 where d: "downloadVideo env (video_url req) ?inp 5 2000 w = (Resolved (), w1)"
    using assms(4) by (metis prod.collapse)
  let ?w2 = "emit (Probe ?inp) w1"
  have pre: "\<forall>q\<in>set pre.
      tagRenders env jobId (avatar_name req) vd (req_banner_config req) info q = RenderEnd
      \<and> cloudinary_upload env (outputPathOf jobId q) = Some (?u q)"
    using assms(9) by (auto simp: tagSucceeds_def)
  from batchLoop_prefix [OF assms(5,6,8) pre, of "p # post" "[]" ?w2]
  obtain w3 where w3:
    "batchLoop env jobId ?inp (avatar_name req) vd (req_banner_config req) (pre @ p # post) [] ?w2
       = batchLoop env jobId ?inp (avatar_name req) vd (req_banner_config req) (p # post)
           ([] @ map (\<lambda>q. (toUpperCase q, ?u q)) pre) w3"
    by blast
  from processPlatform_fails_after_output [OF assms(5,6,8,10), of w3]
  obtain e w4 where w4:
    "processPlatform env jobId ?inp (avatar_name req) vd (req_banner_config req) p w3
       = (Rejected e, w4)"
    "files w4 = insert (outputPathOf jobId p) (files w3)"
    by blast
  have t: "batchTry env jobId req (pre @ p # post) w = (Rejected e, w4)"
    using w3 w4(1)
    by (simp add: batchTry_def d await_def getVideoDimensions_video [OF assms(5,6)]
        assms(7) [symmetric] Let_def)
  have r: "addBannersBatch env jobId req w =
             (Json500 e, if ?inp \<in> files w4 then snd (unlinkSync ?inp w4) else w4)"
    using assms(1,2,3) t by (simp add: addBannersBatch_def)
  show ?thesis
    using w4(2) assms(11) by (auto simp: r unlinkSync_def)
qed

text \<open>
  Claim C10: an instance, the render of the first of two platforms failing with a partial
  output.
\<close>

theorem batch_failure_leaves_output_witness:
  "(\<exists>e. fst (addBannersBatch env_render_partial ''j'' req0 world0) = Json500 e)
   \<and> outputPathOf ''j'' ''tiktok'' \<in> files (snd (addBannersBatch env_render_partial ''j'' req0 world0))
   \<and> inputPathOf ''j'' \<notin> files (snd (addBannersBatch env_render_partial ''j'' req0 world0))"
  using batch_failure_leaves_output
    [of req0 "[]" "''tiktok''" "[''x'']" env_render_partial "''j''" world0 video_md
        "\<lparr> codec_type = ''video'', s_width = 1080, s_height = 1920 \<rparr>"
        "videoDuration (req_duration req0) (format_duration video_md)"
        "\<lparr> i_width = 1080, i_height = 1920, i_duration = format_duration video_md \<rparr>"]
    download_env_ok [where f = "\<lambda>i out opts. RenderFailed True"
                       and g = "cloudinary_upload env_ok"
                       and url = "''http://v''" and out = "''/tmp/input-j.mp4''" and w = world0]
  by (simp add: req0_def inputPathOf_j outputPathOf_j_tiktok)
     (simp add: env_render_partial_def env_ok_def video_md_def)

end
